theory Spec2Isabelle
  imports Main
begin

text \<open>
  A model of the lyrics bot: the handler \<open>handleUpdate\<close> of incoming messages, the
  handlers it calls, and the table of dialog sessions it maintains.  The repository
  holds two versions of the program; the model follows the later one, whose Add flow
  accepts a photo and which has the Edit flow and the random song.
\<close>

section \<open>Strings and library functions\<close>

text \<open>
  A Go string is a sequence of bytes; \<^typ>\<open>string\<close> is a list of 8-bit characters, so
  a literal with characters outside ASCII is written as its UTF-8 bytes.  The functions
  of Go's standard library that the handlers call are modelled on bytes: \<open>strings.Split\<close>
  with a one-byte separator, \<open>strings.Join\<close>, the comparison of strings (lexicographic
  on bytes), and the ASCII path of \<open>strings.ToUpper\<close> and \<open>strings.ToLower\<close> (the library
  maps an all-ASCII string byte by byte, and any other string rune by rune; the rune
  mapping is a parameter of the model, see \<open>Env\<close> below).
\<close>

definition byte :: "char \<Rightarrow> nat" where
  "byte c = of_char c"

definition isASCII :: "string \<Rightarrow> bool" where
  "isASCII s = list_all (\<lambda>c. byte c < 128) s"

definition upper_byte :: "char \<Rightarrow> char" where
  "upper_byte c = (if 97 \<le> byte c \<and> byte c \<le> 122 then char_of (byte c - 32) else c)"

definition lower_byte :: "char \<Rightarrow> char" where
  "lower_byte c = (if 65 \<le> byte c \<and> byte c \<le> 90 then char_of (byte c + 32) else c)"

fun bytes_less :: "string \<Rightarrow> string \<Rightarrow> bool" where
  "bytes_less [] [] = False"
| "bytes_less [] (d # ds) = True"
| "bytes_less (c # cs) [] = False"
| "bytes_less (c # cs) (d # ds) =
     (if byte c < byte d then True
      else if byte d < byte c then False
      else bytes_less cs ds)"

fun strings_Split :: "string \<Rightarrow> char \<Rightarrow> string list" where
  "strings_Split [] sep = [[]]"
| "strings_Split (c # cs) sep =
     (if c = sep then [] # strings_Split cs sep
      else (case strings_Split cs sep of
              [] \<Rightarrow> [[c]]
            | w # ws \<Rightarrow> (c # w) # ws))"

text \<open>\<open>strings.SplitN(s, sep, n)\<close> for \<open>n > 0\<close>: at most \<open>n\<close> pieces, the last one unsplit.\<close>

fun strings_SplitN :: "string \<Rightarrow> char \<Rightarrow> nat \<Rightarrow> string list" where
  "strings_SplitN s sep 0 = []"
| "strings_SplitN s sep (Suc 0) = [s]"
| "strings_SplitN [] sep (Suc (Suc n)) = [[]]"
| "strings_SplitN (c # cs) sep (Suc (Suc n)) =
     (if c = sep then [] # strings_SplitN cs sep (Suc n)
      else (case strings_SplitN cs sep (Suc (Suc n)) of
              [] \<Rightarrow> [[c]]
            | w # ws \<Rightarrow> (c # w) # ws))"

fun strings_Join :: "string list \<Rightarrow> string \<Rightarrow> string" where
  "strings_Join [] sep = []"
| "strings_Join [x] sep = x"
| "strings_Join (x # y # ys) sep = x @ sep @ strings_Join (y # ys) sep"

section \<open>Data model\<close>

text \<open>A panic of the Go runtime ends the process; it is a value of the model.\<close>

datatype error = IndexOutOfRange | TypeAssertion

text \<open>The index expression \<open>xs[i]\<close>, which panics out of range.\<close>

definition at :: "'a list \<Rightarrow> nat \<Rightarrow> error + 'a" where
  "at xs i = (if i < length xs then Inr (xs ! i) else Inl IndexOutOfRange)"

text \<open>
  \<open>bson.M\<close> is a document: keys with values that are strings, numbers or documents.
  The pairs are listed in the order of the source's literal; every literal of the
  program has distinct keys.
\<close>

datatype bson = BString string | BInt int | BDoc "(string \<times> bson) list"

type_synonym bsonM = "(string \<times> bson) list"

text \<open>The type assertion \<open>result[key].(string)\<close>, which panics on anything but a string.\<close>

definition assert_string :: "bsonM \<Rightarrow> string \<Rightarrow> error + string" where
  "assert_string result key =
     (case map_of result key of
        Some (BString s) \<Rightarrow> Inr s
      | _ \<Rightarrow> Inl TypeAssertion)"

text \<open>The two-valued form \<open>v, ok := result[key].(string)\<close>, which does not panic.\<close>

definition string_or_empty :: "bsonM \<Rightarrow> string \<Rightarrow> string" where
  "string_or_empty result key =
     (case map_of result key of
        Some (BString s) \<Rightarrow> s
      | _ \<Rightarrow> [])"

record UserState =
  Stage :: string
  Title :: string
  Lyrics :: string
  Category :: string
  IsEditing :: bool
  EditField :: string

text \<open>The zero value of the struct: a composite literal sets the fields it names.\<close>

definition UserState0 :: UserState where
  "UserState0 = \<lparr>Stage = [], Title = [], Lyrics = [], Category = [],
                  IsEditing = False, EditField = []\<rparr>"

text \<open>The global \<open>userStates\<close>, a map from the sender's identifier to the dialog state.\<close>

type_synonym userStates = "int \<rightharpoonup> UserState"

text \<open>
  The message of an update, as far as the handlers read it.  \<open>IsCommand\<close>, \<open>Command\<close>
  and \<open>CommandArguments\<close> are the results of the transport library's methods of these
  names; \<open>Photo\<close> is \<open>None\<close> for a nil pointer and otherwise the file identifiers of
  the photo sizes, in order.
\<close>

record Message =
  FromID :: int
  ChatID :: int
  Text :: string
  Photo :: "string list option"
  IsCommand :: bool
  Command :: string
  CommandArguments :: string

text \<open>
  What the collaborators answer during one run of a handler: the transport's file
  lookup, the download and the upload to the image host, the document store, and the
  rune mappings of the standard library.  \<open>None\<close> and \<open>False\<close> stand for a non-nil
  error.  A cursor is the list of its documents, \<open>None\<close> where decoding fails.
\<close>

record Env =
  GetFileDirectURL_result :: "string \<Rightarrow> string option"
  downloadFile_ok :: "string \<Rightarrow> string \<Rightarrow> bool"
  uploadImageToImgur_result :: "string \<Rightarrow> string option"
  InsertOne_ok :: "bsonM \<Rightarrow> bool"
  FindOne_result :: "bsonM \<Rightarrow> bsonM option"
  UpdateOne_ok :: "bsonM \<Rightarrow> bsonM \<Rightarrow> bool"
  Find_result :: "bsonM \<Rightarrow> bsonM option list option"
  Aggregate_result :: "bsonM list \<Rightarrow> bsonM option list option"
  unicode_ToUpper :: "string \<Rightarrow> string"
  unicode_ToLower :: "string \<Rightarrow> string"
  strings_TrimSpace :: "string \<Rightarrow> string"

definition strings_ToUpper :: "Env \<Rightarrow> string \<Rightarrow> string" where
  "strings_ToUpper env s = (if isASCII s then map upper_byte s else unicode_ToUpper env s)"

definition strings_ToLower :: "Env \<Rightarrow> string \<Rightarrow> string" where
  "strings_ToLower env s = (if isASCII s then map lower_byte s else unicode_ToLower env s)"

text \<open>
  The calls a handler issues, in order: messages to the chat (text with its reply
  markup, or a photo by URL), operations on the collection, and the steps of the media
  pipeline.  Log output is not part of the model.
\<close>

datatype markup =
    NoMarkup
  | ReplyKeyboard "string list list"
  | RemoveKeyboard
  | InlineKeyboard "(string \<times> string) list list"

datatype effect =
    Send int string markup
  | SendPhotoShare int string
  | InsertOne bsonM
  | FindOne bsonM
  | UpdateOne bsonM bsonM
  | Find bsonM
  | Aggregate "bsonM list"
  | GetFileDirectURL string
  | DownloadFile string string
  | UploadImageToImgur string
  | OsRemove string

section \<open>Authorization\<close>

definition adminIDs :: "int list" where
  "adminIDs = [547900737, 1237680623]"

fun isAdmin_range :: "int list \<Rightarrow> int \<Rightarrow> bool" where
  "isAdmin_range [] userID = False"
| "isAdmin_range (i # ids) userID = (if i = userID then True else isAdmin_range ids userID)"

definition isAdmin :: "int \<Rightarrow> bool" where
  "isAdmin userID = isAdmin_range adminIDs userID"

section \<open>Handlers that never touch the session table\<close>

text \<open>
  Each of these handlers returns the calls it issues, or the panic that ends it.
  \<open>titles_of_cursor\<close> is the loop \<open>for cursor.Next(...)\<close> shared by the listing
  handlers: \<open>Inr None\<close> when a document fails to decode (the handler then returns),
  a panic when a title is not a string.
\<close>

fun titles_of_cursor :: "bsonM option list \<Rightarrow> error + string list option" where
  "titles_of_cursor [] = Inr (Some [])"
| "titles_of_cursor (None # rest) = Inr None"
| "titles_of_cursor (Some result # rest) =
     (case assert_string result ''title'' of
        Inl e \<Rightarrow> Inl e
      | Inr t \<Rightarrow>
          (case titles_of_cursor rest of
             Inl e \<Rightarrow> Inl e
           | Inr None \<Rightarrow> Inr None
           | Inr (Some ts) \<Rightarrow> Inr (Some (t # ts))))"

definition sendMainMenu :: "int \<Rightarrow> effect list" where
  "sendMainMenu chatID =
     [Send chatID ''Welcome to Our Marantha Choir Lyrics Bot! Please select an option:''
        (ReplyKeyboard
           [[[CHR 0xF0, CHR 0x9F, CHR 0x8E, CHR 0xB5] @ '' Search Lyrics'',
             [CHR 0xF0, CHR 0x9F, CHR 0x93, CHR 0x9D] @ '' View All Songs''],
            [[CHR 0xF0, CHR 0x9F, CHR 0x91, CHR 0xA5] @ '' Choir Songs'',
             [CHR 0xF0, CHR 0x9F, CHR 0x8E, CHR 0xB5] @ '' Non-Choir Songs''],
            [[CHR 0xE2, CHR 0xAC, CHR 0x86, CHR 0xEF, CHR 0xB8, CHR 0x8F] @ '' Upload Image'',
             [CHR 0xE2, CHR 0x9E, CHR 0x95] @ '' Add Song''],
            [[CHR 0xE2, CHR 0x9C, CHR 0x8F, CHR 0xEF, CHR 0xB8, CHR 0x8F] @ '' Edit Song'',
             [CHR 0xF0, CHR 0x9F, CHR 0x8E, CHR 0xB2] @ '' Random Song''],
            [[CHR 0xE2, CHR 0x9C, CHR 0x8F] @ '' Help'']])]"

definition helpCommand :: "Message \<Rightarrow> effect list" where
  "helpCommand message =
     [Send (ChatID message)
        (''Here are some commands you can use:'' @ [CHR 0x0A] @
         ''/start - Start the bot'' @ [CHR 0x0A] @
         ''/help - Get help information'' @ [CHR 0x0A] @
         ''/lyrics <song title> - Get lyrics for a song'')
        NoMarkup]"

definition sorry_not_found :: string where
  "sorry_not_found =
     ''Sorry, I couldn'' @ [CHR 0x27] @ ''t find the lyrics for that song.''"

text \<open>\<open>getLyricsFromDB\<close> returns the lyrics, the image URL and whether the song exists.\<close>

definition getLyricsFromDB :: "Env \<Rightarrow> string \<Rightarrow> error + (string \<times> string \<times> bool)" where
  "getLyricsFromDB env title =
     (case FindOne_result env [(''title'', BString title)] of
        None \<Rightarrow> Inr ([], [], False)
      | Some result \<Rightarrow>
          (case assert_string result ''lyrics'' of
             Inl e \<Rightarrow> Inl e
           | Inr lyrics \<Rightarrow>
               (case assert_string result ''image'' of
                  Inl e \<Rightarrow> Inl e
                | Inr imageURL \<Rightarrow> Inr (lyrics, imageURL, True))))"

definition lyricsCommand :: "Env \<Rightarrow> Message \<Rightarrow> error + effect list" where
  "lyricsCommand env message =
     (let songTitle = CommandArguments message in
      case getLyricsFromDB env songTitle of
        Inl e \<Rightarrow> Inl e
      | Inr (lyrics, imageURL, exists) \<Rightarrow>
          Inr (FindOne [(''title'', BString songTitle)] #
               (if exists
                then [SendPhotoShare (ChatID message) imageURL,
                      Send (ChatID message) lyrics NoMarkup]
                else [Send (ChatID message) sorry_not_found NoMarkup])))"

definition uploadImageCommand :: "Env \<Rightarrow> Message \<Rightarrow> error + effect list" where
  "uploadImageCommand env message =
     (case Photo message of
        None \<Rightarrow> Inr [Send (ChatID message) ''Please attach an image to upload.'' NoMarkup]
      | Some photos \<Rightarrow>
          (case at photos (length photos - 1) of
             Inl e \<Rightarrow> Inl e
           | Inr fileID \<Rightarrow>
               (case GetFileDirectURL_result env fileID of
                  None \<Rightarrow>
                    Inr [GetFileDirectURL fileID,
                         Send (ChatID message) ''Failed to process image.'' NoMarkup]
                | Some fileURL \<Rightarrow>
                    (if \<not> downloadFile_ok env ''temp_image.jpg'' fileURL
                     then Inr [GetFileDirectURL fileID,
                               DownloadFile ''temp_image.jpg'' fileURL,
                               Send (ChatID message) ''Failed to download image.'' NoMarkup]
                     else case uploadImageToImgur_result env ''temp_image.jpg'' of
                       None \<Rightarrow>
                         Inr [GetFileDirectURL fileID,
                              DownloadFile ''temp_image.jpg'' fileURL,
                              UploadImageToImgur ''temp_image.jpg'',
                              Send (ChatID message) ''Failed to upload image to Imgur.'' NoMarkup,
                              OsRemove ''temp_image.jpg'']
                     | Some imgurLink \<Rightarrow>
                         Inr [GetFileDirectURL fileID,
                              DownloadFile ''temp_image.jpg'' fileURL,
                              UploadImageToImgur ''temp_image.jpg'',
                              Send (ChatID message)
                                (''Image uploaded successfully: '' @ imgurLink) NoMarkup,
                              OsRemove ''temp_image.jpg'']))))"

definition addSongCommand :: "Env \<Rightarrow> Message \<Rightarrow> error + effect list" where
  "addSongCommand env message =
     (let args = strings_SplitN (CommandArguments message) (CHR ''|'') 3 in
      if length args \<noteq> 3
      then Inr [Send (ChatID message) ''Usage: /addsong <title>|<lyrics>|<image_url>'' NoMarkup]
      else
        let title = strings_TrimSpace env (args ! 0);
            lyrics = strings_TrimSpace env (args ! 1);
            imageURL = strings_TrimSpace env (args ! 2);
            doc = [(''title'', BString title), (''lyrics'', BString lyrics),
                   (''image'', BString imageURL)]
        in if \<not> InsertOne_ok env doc
           then Inr [InsertOne doc, Send (ChatID message) ''Failed to add song.'' NoMarkup]
           else Inr [InsertOne doc, Send (ChatID message) ''Song added successfully!'' NoMarkup])"

definition title_regex :: "string \<Rightarrow> bsonM" where
  "title_regex prefix =
     [(''title'', BDoc [(''$regex'', BString (''^'' @ prefix)), (''$options'', BString ''i'')])]"

text \<open>\<open>getSuggestions\<close> returns nil on a failed query and on a document that fails to decode.\<close>

definition getSuggestions :: "Env \<Rightarrow> string \<Rightarrow> error + string list" where
  "getSuggestions env input =
     (case Find_result env (title_regex input) of
        None \<Rightarrow> Inr []
      | Some cursor \<Rightarrow>
          (case titles_of_cursor cursor of
             Inl e \<Rightarrow> Inl e
           | Inr None \<Rightarrow> Inr []
           | Inr (Some matches) \<Rightarrow> Inr matches))"

definition defaultMessage :: "Env \<Rightarrow> Message \<Rightarrow> error + effect list" where
  "defaultMessage env message =
     (case getSuggestions env (Text message) of
        Inl e \<Rightarrow> Inl e
      | Inr suggestions \<Rightarrow>
          Inr [Find (title_regex (Text message)),
               Send (ChatID message)
                 (''You said: '' @ Text message @
                  (if length suggestions > 0
                   then [CHR 0x0A] @ ''Did you mean:'' @ [CHR 0x0A] @
                        strings_Join suggestions [CHR 0x0A]
                   else []))
                 NoMarkup])"

definition song_buttons :: "string list \<Rightarrow> markup" where
  "song_buttons songs = InlineKeyboard [map (\<lambda>song. (song, song)) songs]"

definition handleAlphabetSelection :: "Env \<Rightarrow> Message \<Rightarrow> error + effect list" where
  "handleAlphabetSelection env message =
     (let alphabet = strings_ToUpper env (Text message) in
      if length alphabet \<noteq> 1 \<or> bytes_less alphabet ''A'' \<or> bytes_less ''Z'' alphabet
      then Inr [Send (ChatID message) ''Please select a valid alphabet (A-Z).'' NoMarkup]
      else
        case Find_result env (title_regex alphabet) of
          None \<Rightarrow> Inr [Find (title_regex alphabet)]
        | Some cursor \<Rightarrow>
            (case titles_of_cursor cursor of
               Inl e \<Rightarrow> Inl e
             | Inr None \<Rightarrow> Inr [Find (title_regex alphabet)]
             | Inr (Some songs) \<Rightarrow>
                 (if length songs = 0
                  then Inr [Find (title_regex alphabet),
                            Send (ChatID message)
                              (''No songs found starting with '' @ alphabet @ ''.'') NoMarkup]
                  else Inr [Find (title_regex alphabet),
                            Send (ChatID message) ''Select a song to get the lyrics:''
                              (song_buttons songs)])))"

definition showSongsByCategory :: "Env \<Rightarrow> Message \<Rightarrow> string \<Rightarrow> error + effect list" where
  "showSongsByCategory env message category =
     (case Find_result env [(''category'', BString category)] of
        None \<Rightarrow> Inr [Find [(''category'', BString category)]]
      | Some cursor \<Rightarrow>
          (case titles_of_cursor cursor of
             Inl e \<Rightarrow> Inl e
           | Inr None \<Rightarrow> Inr [Find [(''category'', BString category)]]
           | Inr (Some songs) \<Rightarrow>
               (if length songs = 0
                then Inr [Find [(''category'', BString category)],
                          Send (ChatID message) (''No '' @ category @ '' songs found.'') NoMarkup]
                else Inr [Find [(''category'', BString category)],
                          Send (ChatID message) (''Select a '' @ category @ '' song:'')
                            (song_buttons songs)])))"

definition sample_pipeline :: "bsonM list" where
  "sample_pipeline = [[(''$sample'', BDoc [(''size'', BInt 1)])]]"

definition getRandomSong :: "Env \<Rightarrow> Message \<Rightarrow> effect list" where
  "getRandomSong env message =
     (case Aggregate_result env sample_pipeline of
        None \<Rightarrow>
          [Aggregate sample_pipeline,
           Send (ChatID message) ''Failed to get random song.'' NoMarkup]
      | Some [] \<Rightarrow>
          [Aggregate sample_pipeline,
           Send (ChatID message) ''No songs found in the database.'' NoMarkup]
      | Some (None # rest) \<Rightarrow>
          [Aggregate sample_pipeline,
           Send (ChatID message) ''Failed to process random song.'' NoMarkup]
      | Some (Some result # rest) \<Rightarrow>
          (let title = string_or_empty result ''title'';
               category = string_or_empty result ''category'';
               lyrics = string_or_empty result ''lyrics'';
               imageURL = string_or_empty result ''image''
           in Aggregate sample_pipeline #
              (if imageURL \<noteq> [] then [SendPhotoShare (ChatID message) imageURL] else []) @
              [Send (ChatID message)
                 (''Title: '' @ title @ [CHR 0x0A] @ ''Category: '' @ category @
                  [CHR 0x0A, CHR 0x0A] @ ''Lyrics:'' @ [CHR 0x0A] @ lyrics)
                 NoMarkup]))"

section \<open>The dispatcher\<close>

text \<open>The labels that the button switch of \<open>handleUpdate\<close> compares the text with.\<close>

definition label_SearchLyrics :: string where
  "label_SearchLyrics = [CHR 0xF0, CHR 0x9F, CHR 0x8E, CHR 0xB5] @ '' Search Lyrics''"

definition label_ViewAllSongs :: string where
  "label_ViewAllSongs = [CHR 0xF0, CHR 0x9F, CHR 0x93, CHR 0x9D] @ '' View All Songs''"

definition label_UploadImage :: string where
  "label_UploadImage =
     [CHR 0xE2, CHR 0xAC, CHR 0x86, CHR 0xEF, CHR 0xB8, CHR 0x8F] @ '' Upload Image''"

definition label_AddSong :: string where
  "label_AddSong = [CHR 0xE2, CHR 0x9E, CHR 0x95] @ '' Add Song''"

definition label_Help :: string where
  "label_Help = [CHR 0xE2, CHR 0x9D, CHR 0x93] @ '' Help''"

definition label_ChoirSongs :: string where
  "label_ChoirSongs = [CHR 0xF0, CHR 0x9F, CHR 0x91, CHR 0xA5] @ '' Choir Songs''"

definition label_NonChoirSongs :: string where
  "label_NonChoirSongs = [CHR 0xF0, CHR 0x9F, CHR 0x8E, CHR 0xB5] @ '' Non-Choir Songs''"

definition label_EditSong :: string where
  "label_EditSong =
     [CHR 0xE2, CHR 0x9C, CHR 0x8F, CHR 0xEF, CHR 0xB8, CHR 0x8F] @ '' Edit Song''"

definition label_RandomSong :: string where
  "label_RandomSong = [CHR 0xF0, CHR 0x9F, CHR 0x8E, CHR 0xB2] @ '' Random Song''"

definition helpText :: string where
  "helpText =
     ''Welcome to Maranatha Choir Lyrics Bot! '' @ [CHR 0xF0, CHR 0x9F, CHR 0x8E, CHR 0xB5, CHR 0x0A, CHR 0x0A] @
     [CHR 0xF0, CHR 0x9F, CHR 0x93, CHR 0xB1] @ '' Main Features:'' @ [CHR 0x0A] @
     [CHR 0xF0, CHR 0x9F, CHR 0x94, CHR 0x8D] @ '' Search Lyrics - Search for song lyrics by title'' @ [CHR 0x0A] @
     [CHR 0xF0, CHR 0x9F, CHR 0x93, CHR 0x9D] @ '' View All Songs - Browse all songs alphabetically'' @ [CHR 0x0A] @
     [CHR 0xF0, CHR 0x9F, CHR 0x91, CHR 0xA5] @ '' Choir Songs - View songs specific to choir'' @ [CHR 0x0A] @
     [CHR 0xF0, CHR 0x9F, CHR 0x8E, CHR 0xB5] @ '' Non-Choir Songs - View other spiritual songs'' @ [CHR 0x0A] @
     [CHR 0xF0, CHR 0x9F, CHR 0x8E, CHR 0xB2] @ '' Random Song - Get a random song from our collection'' @ [CHR 0x0A, CHR 0x0A] @
     [CHR 0xF0, CHR 0x9F, CHR 0x91, CHR 0xA8, CHR 0xE2, CHR 0x80, CHR 0x8D, CHR 0xF0, CHR 0x9F, CHR 0x92, CHR 0xBC] @ '' Admin Features:'' @ [CHR 0x0A] @
     [CHR 0xE2, CHR 0xAC, CHR 0x86, CHR 0xEF, CHR 0xB8, CHR 0x8F] @ '' Upload Image - Upload images for songs'' @ [CHR 0x0A] @
     [CHR 0xE2, CHR 0x9E, CHR 0x95] @ '' Add Song - Add new songs to the database'' @ [CHR 0x0A] @
     [CHR 0xE2, CHR 0x9C, CHR 0x8F, CHR 0xEF, CHR 0xB8, CHR 0x8F] @ '' Edit Song - Modify existing songs'' @ [CHR 0x0A, CHR 0x0A] @
     [CHR 0xF0, CHR 0x9F, CHR 0x94, CHR 0x8D] @ '' Search Tips:'' @ [CHR 0x0A] @
     [CHR 0xE2, CHR 0x80, CHR 0xA2] @ '' Use /lyrics <song title> to search directly'' @ [CHR 0x0A] @
     [CHR 0xE2, CHR 0x80, CHR 0xA2] @ '' Browse songs alphabetically by clicking letters'' @ [CHR 0x0A] @
     [CHR 0xE2, CHR 0x80, CHR 0xA2] @ '' Use the category buttons for filtered views'' @ [CHR 0x0A, CHR 0x0A] @
     [CHR 0xF0, CHR 0x9F, CHR 0x93, CHR 0x9C] @ '' Commands:'' @ [CHR 0x0A] @
     ''/start - Show main menu'' @ [CHR 0x0A] @
     ''/help - Show this help message'' @ [CHR 0x0A] @
     ''/lyrics <title> - Get lyrics for a specific song'' @ [CHR 0x0A] @
     ''/cancel - Cancel current operation'' @ [CHR 0x0A, CHR 0x0A] @
     ''For any issues or song requests, please contact the administrators.''"

text \<open>A handler that leaves the session table as it is.\<close>

definition unchanged ::
  "userStates \<Rightarrow> error + effect list \<Rightarrow> error + (userStates \<times> effect list)" where
  "unchanged states r = (case r of Inl e \<Rightarrow> Inl e | Inr effects \<Rightarrow> Inr (states, effects))"

text \<open>
  The statement \<open>switch update.Message.Command()\<close> of \<open>handleUpdate\<close>, after which the
  function returns.
\<close>

definition commandSwitch ::
  "Env \<Rightarrow> userStates \<Rightarrow> Message \<Rightarrow> error + (userStates \<times> effect list)" where
  "commandSwitch env states message =
     (if Command message = ''start'' then Inr (states, sendMainMenu (ChatID message))
      else if Command message = ''help'' then Inr (states, helpCommand message)
      else if Command message = ''lyrics'' then unchanged states (lyricsCommand env message)
      else if Command message = ''addsong'' then
        (if isAdmin (FromID message)
         then unchanged states (addSongCommand env message)
         else Inr (states,
                   [Send (ChatID message) ''You are not authorized to add songs.'' NoMarkup]))
      else if Command message = ''uploadimage'' then
        (if isAdmin (FromID message)
         then unchanged states (uploadImageCommand env message)
         else Inr (states,
                   [Send (ChatID message) ''You are not authorized to upload images.'' NoMarkup]))
      else if Command message = ''cancel'' then
        (case states (FromID message) of
           Some state \<Rightarrow>
             Inr (states(FromID message := None),
                  [Send (ChatID message) ''Song addition cancelled.'' NoMarkup])
         | None \<Rightarrow> Inr (states, []))
      else unchanged states (defaultMessage env message))"

text \<open>
  The \<open>awaiting_image\<close> case up to the insert: the calls issued so far, the image URL
  (\<open>None\<close> when the case has returned with a failure message), and the calls deferred
  to the return of \<open>handleUpdate\<close>.
\<close>

definition resolve_imageURL ::
  "Env \<Rightarrow> Message \<Rightarrow> error + (effect list \<times> string option \<times> effect list)" where
  "resolve_imageURL env message =
     (case Photo message of
        None \<Rightarrow> Inr ([], Some (Text message), [])
      | Some photos \<Rightarrow>
          (case at photos (length photos - 1) of
             Inl e \<Rightarrow> Inl e
           | Inr fileID \<Rightarrow>
               (case GetFileDirectURL_result env fileID of
                  None \<Rightarrow>
                    Inr ([GetFileDirectURL fileID,
                          Send (ChatID message) ''Failed to process image.'' NoMarkup],
                         None, [])
                | Some fileURL \<Rightarrow>
                    (if \<not> downloadFile_ok env ''temp_image.jpg'' fileURL
                     then Inr ([GetFileDirectURL fileID,
                                DownloadFile ''temp_image.jpg'' fileURL,
                                Send (ChatID message) ''Failed to download image.'' NoMarkup],
                               None, [])
                     else case uploadImageToImgur_result env ''temp_image.jpg'' of
                       None \<Rightarrow>
                         Inr ([GetFileDirectURL fileID,
                               DownloadFile ''temp_image.jpg'' fileURL,
                               UploadImageToImgur ''temp_image.jpg'',
                               Send (ChatID message) ''Failed to upload image to Imgur.''
                                 NoMarkup],
                              None, [OsRemove ''temp_image.jpg''])
                     | Some imgurURL \<Rightarrow>
                         Inr ([GetFileDirectURL fileID,
                               DownloadFile ''temp_image.jpg'' fileURL,
                               UploadImageToImgur ''temp_image.jpg''],
                              Some imgurURL, [OsRemove ''temp_image.jpg''])))))"

text \<open>
  The statement \<open>switch state.Stage\<close> in the default case of the button switch.
  \<open>Inr None\<close>: no case has returned, and control goes on after the switch.
\<close>

definition stageSwitch ::
  "Env \<Rightarrow> userStates \<Rightarrow> UserState \<Rightarrow> Message
     \<Rightarrow> error + (userStates \<times> effect list) option" where
  "stageSwitch env states state message =
     (if Stage state = ''awaiting_title'' then
        Inr (Some (states(FromID message \<mapsto>
                     UserState0\<lparr>Stage := ''awaiting_category'', Title := Text message\<rparr>),
                   [Send (ChatID message) ''Please select the song category:''
                      (ReplyKeyboard [[''Choir'', ''Non-Choir'']])]))
      else if Stage state = ''awaiting_category'' then
        (if Text message \<noteq> ''Choir'' \<and> Text message \<noteq> ''Non-Choir''
         then Inr (Some (states,
                         [Send (ChatID message)
                            ''Please select a valid category (Choir/Non-Choir):'' NoMarkup]))
         else Inr (Some (states(FromID message \<mapsto>
                           UserState0\<lparr>Stage := ''awaiting_lyrics'', Title := Title state,
                                      Category := Text message\<rparr>),
                         [Send (ChatID message) ''Great! Now please enter the lyrics:''
                            RemoveKeyboard])))
      else if Stage state = ''awaiting_lyrics'' then
        Inr (Some (states(FromID message \<mapsto>
                     UserState0\<lparr>Stage := ''awaiting_image'', Title := Title state,
                                Category := Category state, Lyrics := Text message\<rparr>),
                   [Send (ChatID message)
                      ''Perfect! Now please send the image URL or upload an image:'' NoMarkup]))
      else if Stage state = ''awaiting_image'' then
        (case resolve_imageURL env message of
           Inl e \<Rightarrow> Inl e
         | Inr (issued, None, deferred) \<Rightarrow> Inr (Some (states, issued @ deferred))
         | Inr (issued, Some imageURL, deferred) \<Rightarrow>
             (let doc = [(''title'', BString (Title state)),
                         (''lyrics'', BString (Lyrics state)),
                         (''image'', BString imageURL),
                         (''category'', BString (Category state))]
              in Inr (Some (states(FromID message := None),
                            issued @
                            [InsertOne doc,
                             Send (ChatID message)
                               (if \<not> InsertOne_ok env doc then ''Failed to add song.''
                                else ''Song added successfully!'')
                               NoMarkup] @
                            deferred))))
      else if Stage state = ''edit_select_song'' then
        (case FindOne_result env [(''title'', BString (Text message))] of
           None \<Rightarrow>
             Inr (Some (states,
                        [FindOne [(''title'', BString (Text message))],
                         Send (ChatID message) ''Song not found. Please try again:'' NoMarkup]))
         | Some result \<Rightarrow>
             Inr (Some (states(FromID message \<mapsto>
                          UserState0\<lparr>Stage := ''edit_select_field'', Title := Text message,
                                     IsEditing := True\<rparr>),
                        [FindOne [(''title'', BString (Text message))],
                         Send (ChatID message) ''What would you like to edit?''
                           (ReplyKeyboard [[''Edit Title'', ''Edit Lyrics''],
                                           [''Edit Category'', ''Edit Image''],
                                           [''Cancel'']])])))
      else if Stage state = ''edit_select_field'' then
        (if Text message = ''Edit Title'' \<or> Text message = ''Edit Lyrics'' \<or>
            Text message = ''Edit Category'' \<or> Text message = ''Edit Image''
         then
           (case at (strings_Split (Text message) (CHR '' '')) 1 of
              Inl e \<Rightarrow> Inl e
            | Inr word \<Rightarrow>
                Inr (Some (states(FromID message \<mapsto>
                             UserState0\<lparr>Stage := ''edit_enter_value'', Title := Title state,
                                        IsEditing := True,
                                        EditField := strings_ToLower env word\<rparr>),
                           [Send (ChatID message)
                              (''Please enter the new '' @ strings_ToLower env word @ '':'')
                              RemoveKeyboard])))
         else if Text message = ''Cancel'' then
           Inr (Some (states(FromID message := None),
                      Send (ChatID message) ''Edit cancelled.'' RemoveKeyboard #
                      sendMainMenu (ChatID message)))
         else Inr None)
      else if Stage state = ''edit_enter_value'' then
        (let filter = [(''title'', BString (Title state))];
             updateDoc = [(''$set'', BDoc [(EditField state, BString (Text message))])]
         in Inr (Some (states(FromID message := None),
                       [UpdateOne filter updateDoc,
                        Send (ChatID message)
                          (if \<not> UpdateOne_ok env filter updateDoc
                           then ''Failed to update the song.''
                           else ''Song updated successfully!'')
                          NoMarkup] @
                       sendMainMenu (ChatID message))))
      else Inr None)"

definition handleUpdate ::
  "Env \<Rightarrow> userStates \<Rightarrow> Message option \<Rightarrow> error + (userStates \<times> effect list)" where
  "handleUpdate env states update =
     (case update of
        None \<Rightarrow> Inr (states, [])
      | Some message \<Rightarrow>
          if IsCommand message then commandSwitch env states message
          else if Text message = label_SearchLyrics then
            Inr (states,
                 [Send (ChatID message)
                    ''Please enter a letter (A-Z) to see available songs, or use /lyrics <song title> to search directly.''
                    NoMarkup])
          else if Text message = label_ViewAllSongs then
            Inr (states,
                 [Send (ChatID message)
                    ''Please select a letter (A-Z) to see songs starting with that letter:''
                    NoMarkup])
          else if Text message = label_UploadImage then
            (if isAdmin (FromID message)
             then Inr (states,
                       [Send (ChatID message) ''Please send me the image you want to upload.''
                          NoMarkup])
             else Inr (states,
                       [Send (ChatID message) ''You are not authorized to upload images.''
                          NoMarkup]))
          else if Text message = label_AddSong then
            (if isAdmin (FromID message)
             then Inr (states(FromID message \<mapsto> UserState0\<lparr>Stage := ''awaiting_title''\<rparr>),
                       [Send (ChatID message)
                          (''Please enter the song title:'' @ [CHR 0x0A] @
                           ''(or type /cancel to abort)'')
                          NoMarkup])
             else Inr (states,
                       [Send (ChatID message) ''You are not authorized to add songs.''
                          NoMarkup]))
          else if Text message = label_Help then
            Inr (states, [Send (ChatID message) helpText NoMarkup])
          else if Text message = label_ChoirSongs then
            unchanged states (showSongsByCategory env message ''Choir'')
          else if Text message = label_NonChoirSongs then
            unchanged states (showSongsByCategory env message ''Non-Choir'')
          else if Text message = label_EditSong then
            (if isAdmin (FromID message)
             then Inr (states(FromID message \<mapsto>
                         UserState0\<lparr>Stage := ''edit_select_song'', IsEditing := True\<rparr>),
                       [Send (ChatID message)
                          ''Please enter the title of the song you want to edit:'' NoMarkup])
             else Inr (states,
                       [Send (ChatID message) ''You are not authorized to edit songs.''
                          NoMarkup]))
          else if Text message = label_RandomSong then
            Inr (states, getRandomSong env message)
          else
            (if isAdmin (FromID message) then
               (case states (FromID message) of
                  Some state \<Rightarrow>
                    (case stageSwitch env states state message of
                       Inl e \<Rightarrow> Inl e
                     | Inr (Some returned) \<Rightarrow> Inr returned
                     | Inr None \<Rightarrow> unchanged states (handleAlphabetSelection env message))
                | None \<Rightarrow> unchanged states (handleAlphabetSelection env message))
             else unchanged states (handleAlphabetSelection env message)))"

text \<open>
  The loop of \<open>main\<close> over the updates that carry a message, each with the answers
  of the collaborators during its handling.  A panic ends the loop.
\<close>

fun main_loop ::
  "userStates \<Rightarrow> (Env \<times> Message) list \<Rightarrow> error + (userStates \<times> effect list)" where
  "main_loop states [] = Inr (states, [])"
| "main_loop states ((env, message) # updates) =
     (case handleUpdate env states (Some message) of
        Inl e \<Rightarrow> Inl e
      | Inr (states', effects) \<Rightarrow>
          (case main_loop states' updates of
             Inl e \<Rightarrow> Inl e
           | Inr (states'', effects') \<Rightarrow> Inr (states'', effects @ effects')))"

section \<open>Notions the properties are stated with\<close>

text \<open>The nine labels of the button switch, in the order of its cases.\<close>

definition menu_labels :: "string list" where
  "menu_labels = [label_SearchLyrics, label_ViewAllSongs, label_UploadImage, label_AddSong,
                  label_Help, label_ChoirSongs, label_NonChoirSongs, label_EditSong,
                  label_RandomSong]"

text \<open>
  Free text: a message that is not a command and whose text is none of the nine labels.
  These are the messages that reach the default case of the button switch, and so the
  only ones a stage of a dialog can receive.
\<close>

definition free_text :: "Message \<Rightarrow> bool" where
  "free_text message \<longleftrightarrow> \<not> IsCommand message \<and> Text message \<notin> set menu_labels"

text \<open>The writes to the catalog among the calls issued, in order.\<close>

fun writes :: "effect list \<Rightarrow> effect list" where
  "writes [] = []"
| "writes (InsertOne doc # effects) = InsertOne doc # writes effects"
| "writes (UpdateOne f u # effects) = UpdateOne f u # writes effects"
| "writes (e # effects) = writes effects"

text \<open>
  An image that resolves to \<open>url\<close>: without a photo the text is the URL; with a photo,
  the file lookup, the download and the upload of its last size all succeed, and the
  upload answers \<open>url\<close>.
\<close>

definition resolvable_image :: "Env \<Rightarrow> Message \<Rightarrow> string \<Rightarrow> bool" where
  "resolvable_image env message url =
     (case Photo message of
        None \<Rightarrow> url = Text message
      | Some photos \<Rightarrow>
          photos \<noteq> [] \<and>
          (case GetFileDirectURL_result env (last photos) of
             None \<Rightarrow> False
           | Some fileURL \<Rightarrow>
               downloadFile_ok env ''temp_image.jpg'' fileURL \<and>
               uploadImageToImgur_result env ''temp_image.jpg'' = Some url))"

text \<open>The media pipeline fails for a file: at the lookup, at the download or at the upload.\<close>

definition media_fails :: "Env \<Rightarrow> string \<Rightarrow> bool" where
  "media_fails env fileID =
     (case GetFileDirectURL_result env fileID of
        None \<Rightarrow> True
      | Some fileURL \<Rightarrow>
          \<not> downloadFile_ok env ''temp_image.jpg'' fileURL \<or>
          uploadImageToImgur_result env ''temp_image.jpg'' = None)"

subsection \<open>Notions of the later properties\<close>

text \<open>The three messages that report a failure of the media pipeline.\<close>

definition failure_messages :: "string list" where
  "failure_messages = [''Failed to process image.'', ''Failed to download image.'',
                       ''Failed to upload image to Imgur.'']"

text \<open>The texts sent to the chat among the calls issued, in order.\<close>

fun sent_texts :: "effect list \<Rightarrow> string list" where
  "sent_texts [] = []"
| "sent_texts (Send chat body m # effects) = body # sent_texts effects"
| "sent_texts (e # effects) = sent_texts effects"

text \<open>The four field labels of the Edit flow, and the catalog field each one selects.\<close>

definition edit_labels :: "string list" where
  "edit_labels = [''Edit Title'', ''Edit Lyrics'', ''Edit Category'', ''Edit Image'']"

definition selected_field :: "string \<Rightarrow> string" where
  "selected_field label =
     (if label = ''Edit Title'' then ''title''
      else if label = ''Edit Lyrics'' then ''lyrics''
      else if label = ''Edit Category'' then ''category''
      else ''image'')"



text \<open>The outcome of a handler without the session table: the panic, or the calls issued.\<close>

definition calls :: "error + (userStates \<times> effect list) \<Rightarrow> error + effect list" where
  "calls r = (case r of Inl e \<Rightarrow> Inl e | Inr (states, effects) \<Rightarrow> Inr effects)"

text \<open>The sessions that the Add button and the Edit button create.\<close>

definition fresh_add :: UserState where
  "fresh_add = UserState0\<lparr>Stage := ''awaiting_title''\<rparr>"

definition fresh_edit :: UserState where
  "fresh_edit = UserState0\<lparr>Stage := ''edit_select_song'', IsEditing := True\<rparr>"

subsection \<open>Concrete inputs\<close>

text \<open>An administrator, a user who is none, and collaborators that all succeed.\<close>

definition admin :: int where
  "admin = 547900737"

definition visitor :: int where
  "visitor = 42"

definition text_message :: "int \<Rightarrow> string \<Rightarrow> Message" where
  "text_message uid text =
     \<lparr>FromID = uid, ChatID = uid, Text = text, Photo = None,
      IsCommand = False, Command = [], CommandArguments = []\<rparr>"

definition photo_message :: "int \<Rightarrow> string list \<Rightarrow> Message" where
  "photo_message uid fileIDs =
     \<lparr>FromID = uid, ChatID = uid, Text = [], Photo = Some fileIDs,
      IsCommand = False, Command = [], CommandArguments = []\<rparr>"

definition command_message :: "int \<Rightarrow> string \<Rightarrow> Message" where
  "command_message uid name =
     \<lparr>FromID = uid, ChatID = uid, Text = CHR ''/'' # name, Photo = None,
      IsCommand = True, Command = name, CommandArguments = []\<rparr>"

definition env_ok :: Env where
  "env_ok =
     \<lparr>GetFileDirectURL_result = (\<lambda>fileID. Some (''https://files.example/'' @ fileID)),
      downloadFile_ok = (\<lambda>path url. True),
      uploadImageToImgur_result = (\<lambda>path. Some ''https://i.imgur.com/a.jpg''),
      InsertOne_ok = (\<lambda>doc. True),
      FindOne_result = (\<lambda>filter. Some filter),
      UpdateOne_ok = (\<lambda>filter update. True),
      Find_result = (\<lambda>filter. Some []),
      Aggregate_result = (\<lambda>pipeline. Some []),
      unicode_ToUpper = (\<lambda>s. s),
      unicode_ToLower = (\<lambda>s. s),
      strings_TrimSpace = (\<lambda>s. s)\<rparr>"

text \<open>The same collaborators, with an image host that refuses every upload.\<close>

definition env_upload_fails :: Env where
  "env_upload_fails = env_ok\<lparr>uploadImageToImgur_result := (\<lambda>path. None)\<rparr>"

text \<open>The same collaborators, with a document store that refuses every write.\<close>

definition env_store_fails :: Env where
  "env_store_fails = env_ok\<lparr>InsertOne_ok := (\<lambda>doc. False),
                             UpdateOne_ok := (\<lambda>filter update. False)\<rparr>"

text \<open>A session table with one session, and the sessions of the two flows at their stages.\<close>

definition sessions :: "int \<Rightarrow> UserState \<Rightarrow> userStates" where
  "sessions uid state = Map.empty(uid \<mapsto> state)"

definition state_awaiting_title :: UserState where
  "state_awaiting_title = UserState0\<lparr>Stage := ''awaiting_title''\<rparr>"

definition state_awaiting_category :: UserState where
  "state_awaiting_category = UserState0\<lparr>Stage := ''awaiting_category'', Title := ''Night Song''\<rparr>"

definition state_awaiting_image :: UserState where
  "state_awaiting_image =
     UserState0\<lparr>Stage := ''awaiting_image'', Title := ''Night Song'',
                Category := ''Choir'', Lyrics := ''La la la''\<rparr>"

definition state_edit_select_field :: UserState where
  "state_edit_select_field =
     UserState0\<lparr>Stage := ''edit_select_field'', Title := ''Night Song'', IsEditing := True\<rparr>"

definition state_edit_enter_value :: UserState where
  "state_edit_enter_value =
     UserState0\<lparr>Stage := ''edit_enter_value'', Title := ''Night Song'', IsEditing := True,
                EditField := ''title''\<rparr>"

section \<open>Properties\<close>

subsection \<open>Auxiliary facts\<close>

lemma handleUpdate_free_text:
  assumes "free_text m"
  shows "handleUpdate env st (Some m) =
     (if isAdmin (FromID m) then
        (case st (FromID m) of
           Some state \<Rightarrow>
             (case stageSwitch env st state m of
                Inl e \<Rightarrow> Inl e
              | Inr (Some returned) \<Rightarrow> Inr returned
              | Inr None \<Rightarrow> unchanged st (handleAlphabetSelection env m))
         | None \<Rightarrow> unchanged st (handleAlphabetSelection env m))
      else unchanged st (handleAlphabetSelection env m))"
  using assms by (simp add: handleUpdate_def free_text_def menu_labels_def)

lemma writes_append: "writes (xs @ ys) = writes xs @ writes ys"
  by (induction xs rule: writes.induct) simp_all

lemma writes_sendMainMenu: "writes (sendMainMenu c) = []"
  by (simp add: sendMainMenu_def)

lemma at_last: "photos \<noteq> [] \<Longrightarrow> at photos (length photos - Suc 0) = Inr (last photos)"
  by (simp add: at_def last_conv_nth)

lemmas label_defs =
  label_SearchLyrics_def label_ViewAllSongs_def label_UploadImage_def label_AddSong_def
  label_Help_def label_ChoirSongs_def label_NonChoirSongs_def label_EditSong_def
  label_RandomSong_def

lemma category_is_free_text:
  "\<not> IsCommand c \<Longrightarrow> Text c = ''Choir'' \<or> Text c = ''Non-Choir'' \<Longrightarrow> free_text c"
  by (auto simp add: free_text_def menu_labels_def label_defs)

lemma isAdmin_admin: "isAdmin admin"
  by (simp add: isAdmin_def adminIDs_def admin_def)

lemma not_isAdmin_visitor: "\<not> isAdmin visitor"
  by (simp add: isAdmin_def adminIDs_def visitor_def)

lemma free_text_text_message:
  "free_text (text_message uid text) \<longleftrightarrow> text \<notin> set menu_labels"
  by (simp add: free_text_def text_message_def)

lemma sessions_admin [simp]: "sessions uid state uid = Some state"
  by (simp add: sessions_def)

lemma free_text_photo_message: "free_text (photo_message uid fileIDs)"
  by (simp add: free_text_def photo_message_def menu_labels_def label_defs)

subsection \<open>The Add flow\<close>

lemma resolve_imageURL_ok:
  assumes "resolvable_image env m url"
  shows "\<exists>issued deferred. resolve_imageURL env m = Inr (issued, Some url, deferred)
           \<and> writes issued = [] \<and> writes deferred = []"
  using assms
  by (auto simp add: resolvable_image_def resolve_imageURL_def at_last
      split: option.splits)

lemma stage_awaiting_image_ok:
  assumes "resolvable_image env m url" and "Stage state = ''awaiting_image''"
  shows "\<exists>effects. stageSwitch env st state m = Inr (Some (st(FromID m := None), effects)) \<and>
           writes effects = [InsertOne [(''title'', BString (Title state)),
                                        (''lyrics'', BString (Lyrics state)),
                                        (''image'', BString url),
                                        (''category'', BString (Category state))]]"
proof -
  from resolve_imageURL_ok [OF assms(1)] obtain issued deferred where
    r: "resolve_imageURL env m = Inr (issued, Some url, deferred)"
    and w: "writes issued = []" "writes deferred = []"
    by blast
  show ?thesis
    using assms(2) r w by (simp add: stageSwitch_def writes_append Let_def)
qed

text \<open>
  Claim C1.  An administrator presses the Add button and then supplies a title, a
  category that is \<open>Choir\<close> or \<open>Non-Choir\<close>, the lyrics and an image that resolves to
  a URL (a photo that uploads, or text taken as the URL), each as free text of the
  dialog.  Whatever sessions existed before and whatever the collaborators answer
  otherwise, the five updates issue exactly one write to the catalog, the insert of
  the document with this title, these lyrics, this URL and this category, and the
  administrator has no session afterwards; the other sessions are as before.
\<close>

theorem add_flow_inserts_once:
  assumes privileged: "isAdmin uid"
    and add: "FromID add = uid" "\<not> IsCommand add" "Text add = label_AddSong"
    and title: "FromID t = uid" "free_text t"
    and category: "FromID c = uid" "\<not> IsCommand c" "Text c = ''Choir'' \<or> Text c = ''Non-Choir''"
    and lyrics: "FromID l = uid" "free_text l"
    and image: "FromID i = uid" "free_text i" "resolvable_image e4 i url"
  shows "\<exists>effects.
           main_loop st [(e0, add), (e1, t), (e2, c), (e3, l), (e4, i)]
             = Inr (st(uid := None), effects) \<and>
           writes effects = [InsertOne [(''title'', BString (Text t)),
                                        (''lyrics'', BString (Text l)),
                                        (''image'', BString url),
                                        (''category'', BString (Text c))]]"
proof -
  let ?s1 = "st(uid \<mapsto> UserState0\<lparr>Stage := ''awaiting_title''\<rparr>)"
  let ?s2 = "?s1(uid \<mapsto> UserState0\<lparr>Stage := ''awaiting_category'', Title := Text t\<rparr>)"
  let ?s3 = "?s2(uid \<mapsto> UserState0\<lparr>Stage := ''awaiting_lyrics'', Title := Text t,
                                     Category := Text c\<rparr>)"
  let ?st4 = "UserState0\<lparr>Stage := ''awaiting_image'', Title := Text t,
                          Category := Text c, Lyrics := Text l\<rparr>"
  let ?s4 = "?s3(uid \<mapsto> ?st4)"
  have step0: "handleUpdate e0 st (Some add) =
      Inr (?s1, [Send (ChatID add)
                   (''Please enter the song title:'' @ [CHR 0x0A] @ ''(or type /cancel to abort)'')
                   NoMarkup])"
    using privileged add
    by (simp add: handleUpdate_def label_SearchLyrics_def label_ViewAllSongs_def
        label_UploadImage_def label_AddSong_def)
  have step1: "handleUpdate e1 ?s1 (Some t) =
      Inr (?s2, [Send (ChatID t) ''Please select the song category:''
                   (ReplyKeyboard [[''Choir'', ''Non-Choir'']])])"
    using privileged title
    by (simp add: handleUpdate_free_text stageSwitch_def UserState0_def)
  have step2: "handleUpdate e2 ?s2 (Some c) =
      Inr (?s3, [Send (ChatID c) ''Great! Now please enter the lyrics:'' RemoveKeyboard])"
    using privileged category category_is_free_text [OF category(2,3)]
    by (auto simp add: handleUpdate_free_text stageSwitch_def UserState0_def)
  have step3: "handleUpdate e3 ?s3 (Some l) =
      Inr (?s4, [Send (ChatID l)
                   ''Perfect! Now please send the image URL or upload an image:'' NoMarkup])"
    using privileged lyrics
    by (simp add: handleUpdate_free_text stageSwitch_def UserState0_def)
  have "Stage ?st4 = ''awaiting_image''"
    by (simp add: UserState0_def)
  from stage_awaiting_image_ok [OF image(3) this, of ?s4] obtain effects where
    sw: "stageSwitch e4 ?s4 ?st4 i = Inr (Some (?s4(FromID i := None), effects))"
    and w: "writes effects = [InsertOne [(''title'', BString (Title ?st4)),
                                        (''lyrics'', BString (Lyrics ?st4)),
                                        (''image'', BString url),
                                        (''category'', BString (Category ?st4))]]"
    by blast
  have step4: "handleUpdate e4 ?s4 (Some i) = Inr (st(uid := None), effects)"
    using privileged image(1,2) sw
    by (simp add: handleUpdate_free_text)
  show ?thesis
    using step0 step1 step2 step3 step4 w
    by (simp add: writes_append UserState0_def)
qed

theorem add_flow_inserts_once_witness:
  "isAdmin admin \<and>
   free_text (text_message admin ''Night Song'') \<and>
   free_text (text_message admin ''La la la'') \<and>
   resolvable_image env_ok (photo_message admin [''small'', ''large''])
     ''https://i.imgur.com/a.jpg'' \<and>
   (\<exists>effects.
      main_loop Map.empty
        [(env_ok, text_message admin label_AddSong),
         (env_ok, text_message admin ''Night Song''),
         (env_ok, text_message admin ''Choir''),
         (env_ok, text_message admin ''La la la''),
         (env_ok, photo_message admin [''small'', ''large''])]
        = Inr (Map.empty(admin := None), effects) \<and>
      writes effects = [InsertOne [(''title'', BString ''Night Song''),
                                   (''lyrics'', BString ''La la la''),
                                   (''image'', BString ''https://i.imgur.com/a.jpg''),
                                   (''category'', BString ''Choir'')]])"
proof -
  have ft: "free_text (text_message admin ''Night Song'')"
    "free_text (text_message admin ''La la la'')"
    by (simp_all add: free_text_text_message menu_labels_def label_defs)
  have img: "resolvable_image env_ok (photo_message admin [''small'', ''large''])
     ''https://i.imgur.com/a.jpg''"
    by (simp add: resolvable_image_def photo_message_def env_ok_def)
  show ?thesis
    using add_flow_inserts_once [OF isAdmin_admin _ _ _ _ ft(1) _ _ _ _ ft(2) _
        free_text_photo_message img,
        of "text_message admin label_AddSong" "text_message admin ''Choir''"
           Map.empty env_ok env_ok env_ok env_ok]
      isAdmin_admin ft img
    by (simp add: text_message_def photo_message_def)
qed

lemma resolve_imageURL_fails:
  assumes "Photo m = Some photos" "photos \<noteq> []" "media_fails env (last photos)"
  shows "\<exists>issued deferred reply. resolve_imageURL env m = Inr (issued, None, deferred)
           \<and> writes (issued @ deferred) = [] \<and> sent_texts (issued @ deferred) = [reply]
           \<and> reply \<in> set failure_messages"
  using assms
  by (auto simp add: media_fails_def resolve_imageURL_def at_last failure_messages_def
      split: option.splits)

text \<open>
  Claim C3.  An administrator's session is at \<open>awaiting_image\<close> and the message
  carries a photo for which the media pipeline fails, at the file lookup, at the
  download or at the upload.  Then the handler sends exactly one message, one of the
  three failure messages, issues no write to the catalog, and returns the session
  table as it was: the session is still at \<open>awaiting_image\<close> with its title, category
  and lyrics.
\<close>

theorem media_failure_keeps_session:
  assumes "isAdmin (FromID m)" and "free_text m"
    and "st (FromID m) = Some state" and "Stage state = ''awaiting_image''"
    and "Photo m = Some photos" and "photos \<noteq> []"
    and "media_fails env (last photos)"
  shows "\<exists>effects reply.
           handleUpdate env st (Some m) = Inr (st, effects) \<and>
           sent_texts effects = [reply] \<and> reply \<in> set failure_messages \<and>
           writes effects = []"
proof -
  from resolve_imageURL_fails [OF assms(5,6,7)] obtain issued deferred reply where
    r: "resolve_imageURL env m = Inr (issued, None, deferred)"
    and w: "writes (issued @ deferred) = []" "sent_texts (issued @ deferred) = [reply]"
      "reply \<in> set failure_messages"
    by blast
  have "handleUpdate env st (Some m) = Inr (st, issued @ deferred)"
    using assms(1-4) r by (simp add: handleUpdate_free_text stageSwitch_def)
  with w show ?thesis by blast
qed

theorem media_failure_keeps_session_witness:
  "isAdmin admin \<and>
   free_text (photo_message admin [''small'', ''large'']) \<and>
   media_fails env_upload_fails ''large'' \<and>
   (\<exists>effects reply.
      handleUpdate env_upload_fails (sessions admin state_awaiting_image)
        (Some (photo_message admin [''small'', ''large'']))
        = Inr (sessions admin state_awaiting_image, effects) \<and>
      sent_texts effects = [reply] \<and> reply \<in> set failure_messages \<and>
      writes effects = [])"
proof -
  have mf: "media_fails env_upload_fails (last [''small'', ''large''])"
    by (simp add: media_fails_def env_upload_fails_def env_ok_def)
  have ad: "isAdmin (FromID (photo_message admin [''small'', ''large'']))"
    by (simp add: photo_message_def isAdmin_admin)
  have s: "sessions admin state_awaiting_image
             (FromID (photo_message admin [''small'', ''large''])) = Some state_awaiting_image"
    by (simp add: photo_message_def)
  have g: "Stage state_awaiting_image = ''awaiting_image''"
    by (simp add: state_awaiting_image_def UserState0_def)
  have p: "Photo (photo_message admin [''small'', ''large'']) = Some [''small'', ''large'']"
    by (simp add: photo_message_def)
  show ?thesis
    using media_failure_keeps_session [of "photo_message admin [''small'', ''large'']"
        "sessions admin state_awaiting_image" state_awaiting_image "[''small'', ''large'']"
        env_upload_fails]
      ad s g p mf isAdmin_admin free_text_photo_message [of admin "[''small'', ''large'']"]
    by simp
qed

subsection \<open>Cancellation\<close>

lemma cancel_step:
  assumes "IsCommand m" and "Command m = ''cancel''" and "st (FromID m) = Some state"
  shows "handleUpdate env st (Some m) =
           Inr (st(FromID m := None),
                [Send (ChatID m) ''Song addition cancelled.'' NoMarkup])"
  by (simp add: handleUpdate_def commandSwitch_def assms)

lemma idle_free_text:
  assumes "free_text m" and "st (FromID m) = None"
  shows "handleUpdate env st (Some m) = unchanged st (handleAlphabetSelection env m)"
  by (simp add: handleUpdate_free_text assms)

text \<open>
  Claim C4.  A user has a session, at whatever stage, and sends the command
  \<open>/cancel\<close>: the session is deleted and the cancellation is confirmed.  Free text
  that the same user sends next, whatever the collaborators answer then, is handled by
  the alphabet selection alone and leaves the table without a session for the user: it
  is input of the idle state, and nothing of the aborted flow is continued.
\<close>

theorem cancel_returns_to_idle:
  assumes "IsCommand m" and "Command m = ''cancel''" and "st (FromID m) = Some state"
    and "FromID m' = FromID m" and "free_text m'"
  shows "handleUpdate env st (Some m) =
           Inr (st(FromID m := None),
                [Send (ChatID m) ''Song addition cancelled.'' NoMarkup]) \<and>
         handleUpdate env' (st(FromID m := None)) (Some m') =
           unchanged (st(FromID m := None)) (handleAlphabetSelection env' m')"
proof
  show "handleUpdate env st (Some m) =
           Inr (st(FromID m := None),
                [Send (ChatID m) ''Song addition cancelled.'' NoMarkup])"
    using assms(1-3) by (rule cancel_step)
  have "(st(FromID m := None)) (FromID m') = None"
    using assms(4) by simp
  with assms(5) show "handleUpdate env' (st(FromID m := None)) (Some m') =
           unchanged (st(FromID m := None)) (handleAlphabetSelection env' m')"
    by (rule idle_free_text)
qed

theorem cancel_returns_to_idle_witness:
  "IsCommand (command_message admin ''cancel'') \<and>
   free_text (text_message admin ''Night Song'') \<and>
   handleUpdate env_ok (sessions admin state_awaiting_category)
     (Some (command_message admin ''cancel''))
     = Inr ((sessions admin state_awaiting_category)(admin := None),
            [Send admin ''Song addition cancelled.'' NoMarkup]) \<and>
   handleUpdate env_ok ((sessions admin state_awaiting_category)(admin := None))
     (Some (text_message admin ''Night Song''))
     = unchanged ((sessions admin state_awaiting_category)(admin := None))
         (handleAlphabetSelection env_ok (text_message admin ''Night Song''))"
proof -
  have ft: "free_text (text_message admin ''Night Song'')"
    by (simp add: free_text_text_message menu_labels_def label_defs)
  show ?thesis
    using cancel_returns_to_idle [of "command_message admin ''cancel''"
        "sessions admin state_awaiting_category" state_awaiting_category
        "text_message admin ''Night Song''" env_ok env_ok] ft
    by (simp add: command_message_def text_message_def)
qed

subsection \<open>Authorization\<close>














text \<open>
  Claim C9.  A user who is not an administrator sends the label of the Add button:
  the denial is sent and the session table is returned as it was, so no session is
  created.
\<close>

theorem non_admin_add_denied:
  assumes "\<not> isAdmin (FromID m)" and "\<not> IsCommand m" and "Text m = label_AddSong"
  shows "handleUpdate env st (Some m) =
           Inr (st, [Send (ChatID m) ''You are not authorized to add songs.'' NoMarkup])"
  using assms by (simp add: handleUpdate_def label_defs)

theorem non_admin_add_denied_witness:
  "\<not> isAdmin visitor \<and>
   handleUpdate env_ok Map.empty (Some (text_message visitor label_AddSong))
     = Inr (Map.empty, [Send visitor ''You are not authorized to add songs.'' NoMarkup])"
  using non_admin_add_denied [of "text_message visitor label_AddSong" env_ok Map.empty]
    not_isAdmin_visitor
  by (simp add: text_message_def)

subsection \<open>The category step\<close>

text \<open>
  Claim C7.  An administrator's session is at \<open>awaiting_category\<close> and the stage
  receives text that is neither \<open>Choir\<close> nor \<open>Non-Choir\<close>: the handler sends the
  reprompt and returns the session table as it was, so the session is still at
  \<open>awaiting_category\<close> and none of its fields is overwritten.
\<close>

theorem invalid_category_reprompts:
  assumes "isAdmin (FromID m)" and "free_text m"
    and "st (FromID m) = Some state" and "Stage state = ''awaiting_category''"
    and "Text m \<noteq> ''Choir''" and "Text m \<noteq> ''Non-Choir''"
  shows "handleUpdate env st (Some m) =
           Inr (st, [Send (ChatID m) ''Please select a valid category (Choir/Non-Choir):''
                       NoMarkup])"
  using assms by (simp add: handleUpdate_free_text stageSwitch_def)

theorem invalid_category_reprompts_witness:
  "isAdmin admin \<and>
   free_text (text_message admin ''Hymn'') \<and>
   handleUpdate env_ok (sessions admin state_awaiting_category)
     (Some (text_message admin ''Hymn''))
     = Inr (sessions admin state_awaiting_category,
            [Send admin ''Please select a valid category (Choir/Non-Choir):'' NoMarkup])"
proof -
  have ft: "free_text (text_message admin ''Hymn'')"
    by (simp add: free_text_text_message menu_labels_def label_defs)
  show ?thesis
    using invalid_category_reprompts [of "text_message admin ''Hymn''"
        "sessions admin state_awaiting_category" state_awaiting_category env_ok]
      ft isAdmin_admin
    by (simp add: text_message_def state_awaiting_category_def UserState0_def)
qed

subsection \<open>The Edit flow\<close>

lemma edit_label_word:
  assumes "l \<in> set edit_labels"
  shows "\<exists>w. at (strings_Split l (CHR '' '')) 1 = Inr w \<and>
             strings_ToLower env w = selected_field l"
proof -
  have lower: "strings_ToLower env ''Title'' = ''title''"
    "strings_ToLower env ''Lyrics'' = ''lyrics''"
    "strings_ToLower env ''Category'' = ''category''"
    "strings_ToLower env ''Image'' = ''image''"
    by code_simp+
  from assms consider "l = ''Edit Title''" | "l = ''Edit Lyrics''" | "l = ''Edit Category''"
    | "l = ''Edit Image''"
    by (auto simp add: edit_labels_def)
  then show ?thesis
    by cases (simp_all add: at_def lower selected_field_def)
qed

lemma edit_label_is_free_text:
  "\<not> IsCommand f \<Longrightarrow> Text f \<in> set edit_labels \<Longrightarrow> free_text f"
  by (auto simp add: free_text_def menu_labels_def label_defs edit_labels_def)

lemma stage_edit_select_field:
  assumes "Stage state = ''edit_select_field''" and "Text f \<in> set edit_labels"
  shows "stageSwitch env st state f =
           Inr (Some (st(FromID f \<mapsto>
                        UserState0\<lparr>Stage := ''edit_enter_value'', Title := Title state,
                                   IsEditing := True,
                                   EditField := selected_field (Text f)\<rparr>),
                      [Send (ChatID f)
                         (''Please enter the new '' @ selected_field (Text f) @ '':'')
                         RemoveKeyboard]))"
proof -
  from edit_label_word [OF assms(2)] obtain w where
    w: "at (strings_Split (Text f) (CHR '' '')) 1 = Inr w"
      "strings_ToLower env w = selected_field (Text f)"
    by blast
  have l: "Text f = ''Edit Title'' \<or> Text f = ''Edit Lyrics'' \<or>
        Text f = ''Edit Category'' \<or> Text f = ''Edit Image''"
    using assms(2) by (simp add: edit_labels_def)
  show ?thesis
    unfolding stageSwitch_def using assms(1) l w(1) w(2) [symmetric]
    by (simp del: One_nat_def)
qed

text \<open>
  Claim C6.  An administrator presses the Edit button, names a song that the catalog
  finds, selects one of the four field labels and enters a value as free text.  The
  four updates issue exactly one write to the catalog: an update whose filter is the
  title entered at \<open>edit_select_song\<close> and whose \<open>$set\<close> document has the single key
  that the label selects, with the value entered.  The filter is that earlier title
  also when the label is \<open>Edit Title\<close>.  The administrator has no session afterwards.
\<close>

theorem edit_flow_updates_selected_field:
  assumes privileged: "isAdmin uid"
    and edit: "FromID edit = uid" "\<not> IsCommand edit" "Text edit = label_EditSong"
    and song: "FromID t = uid" "free_text t"
      "FindOne_result e1 [(''title'', BString (Text t))] = Some found"
    and field: "FromID f = uid" "\<not> IsCommand f" "Text f \<in> set edit_labels"
    and val: "FromID v = uid" "free_text v"
  shows "\<exists>effects.
           main_loop st [(e0, edit), (e1, t), (e2, f), (e3, v)]
             = Inr (st(uid := None), effects) \<and>
           writes effects =
             [UpdateOne [(''title'', BString (Text t))]
                        [(''$set'', BDoc [(selected_field (Text f), BString (Text v))])]]"
proof -
  let ?s1 = "st(uid \<mapsto> UserState0\<lparr>Stage := ''edit_select_song'', IsEditing := True\<rparr>)"
  let ?st2 = "UserState0\<lparr>Stage := ''edit_select_field'', Title := Text t, IsEditing := True\<rparr>"
  let ?s2 = "?s1(uid \<mapsto> ?st2)"
  let ?st3 = "UserState0\<lparr>Stage := ''edit_enter_value'', Title := Title ?st2,
                          IsEditing := True, EditField := selected_field (Text f)\<rparr>"
  let ?s3 = "?s2(uid \<mapsto> ?st3)"
  have step0: "handleUpdate e0 st (Some edit) =
      Inr (?s1, [Send (ChatID edit)
                   ''Please enter the title of the song you want to edit:'' NoMarkup])"
    using privileged edit by (simp add: handleUpdate_def label_defs)
  have step1: "handleUpdate e1 ?s1 (Some t) =
      Inr (?s2, [FindOne [(''title'', BString (Text t))],
                 Send (ChatID t) ''What would you like to edit?''
                   (ReplyKeyboard [[''Edit Title'', ''Edit Lyrics''],
                                   [''Edit Category'', ''Edit Image''],
                                   [''Cancel'']])])"
    using privileged song
    by (simp add: handleUpdate_free_text stageSwitch_def UserState0_def)
  have "Stage ?st2 = ''edit_select_field''"
    by (simp add: UserState0_def)
  note sw = stage_edit_select_field [OF this field(3), of e2 ?s2]
  have step2: "handleUpdate e2 ?s2 (Some f) =
      Inr (?s3, [Send (ChatID f)
                   (''Please enter the new '' @ selected_field (Text f) @ '':'')
                   RemoveKeyboard])"
    using privileged field(1) edit_label_is_free_text [OF field(2,3)] sw
    by (simp add: handleUpdate_free_text)
  have step3: "handleUpdate e3 ?s3 (Some v) =
      Inr (st(uid := None),
           [UpdateOne [(''title'', BString (Text t))]
                      [(''$set'', BDoc [(selected_field (Text f), BString (Text v))])],
            Send (ChatID v)
              (if \<not> UpdateOne_ok e3 [(''title'', BString (Text t))]
                     [(''$set'', BDoc [(selected_field (Text f), BString (Text v))])]
               then ''Failed to update the song.'' else ''Song updated successfully!'')
              NoMarkup] @ sendMainMenu (ChatID v))"
    using privileged val
    by (simp add: handleUpdate_free_text stageSwitch_def UserState0_def Let_def)
  show ?thesis
    using step0 step1 step2 step3
    by (simp add: writes_append writes_sendMainMenu)
qed

theorem edit_flow_updates_selected_field_witness:
  "isAdmin admin \<and>
   free_text (text_message admin ''Night Song'') \<and>
   free_text (text_message admin ''Morning Song'') \<and>
   ''Edit Title'' \<in> set edit_labels \<and>
   (\<exists>effects.
      main_loop Map.empty
        [(env_ok, text_message admin label_EditSong),
         (env_ok, text_message admin ''Night Song''),
         (env_ok, text_message admin ''Edit Title''),
         (env_ok, text_message admin ''Morning Song'')]
        = Inr (Map.empty(admin := None), effects) \<and>
      writes effects =
        [UpdateOne [(''title'', BString ''Night Song'')]
                   [(''$set'', BDoc [(''title'', BString ''Morning Song'')])]])"
proof -
  have ft: "free_text (text_message admin ''Night Song'')"
    "free_text (text_message admin ''Morning Song'')"
    by (simp_all add: free_text_text_message menu_labels_def label_defs)
  have el: "''Edit Title'' \<in> set edit_labels"
    by (simp add: edit_labels_def)
  have fo: "FindOne_result env_ok [(''title'', BString (Text (text_message admin ''Night Song'')))]
      = Some [(''title'', BString ''Night Song'')]"
    by (simp add: env_ok_def text_message_def)
  show ?thesis
    using edit_flow_updates_selected_field [OF isAdmin_admin _ _ _ _ ft(1) fo _ _ _ _ ft(2),
        of "text_message admin label_EditSong" "text_message admin ''Edit Title''"
           Map.empty env_ok env_ok env_ok]
      isAdmin_admin ft el
    by (simp add: text_message_def selected_field_def)
qed

text \<open>
  Claim C8.  An administrator's session is at \<open>edit_enter_value\<close> and the stage
  receives any text.  The handler issues the update (filter: the stored title; the
  stored field set to the text), reports to the user whether it failed or succeeded,
  shows the main menu, and deletes the session, in both outcomes of the update.
\<close>

theorem edit_value_deletes_session_either_way:
  assumes "isAdmin (FromID m)" and "free_text m"
    and "st (FromID m) = Some state" and "Stage state = ''edit_enter_value''"
  shows "handleUpdate env st (Some m) =
           Inr (st(FromID m := None),
                [UpdateOne [(''title'', BString (Title state))]
                           [(''$set'', BDoc [(EditField state, BString (Text m))])],
                 Send (ChatID m)
                   (if UpdateOne_ok env [(''title'', BString (Title state))]
                                        [(''$set'', BDoc [(EditField state, BString (Text m))])]
                    then ''Song updated successfully!'' else ''Failed to update the song.'')
                   NoMarkup] @
                sendMainMenu (ChatID m))"
  using assms by (simp add: handleUpdate_free_text stageSwitch_def Let_def)

theorem edit_value_deletes_session_either_way_witness:
  "isAdmin admin \<and>
   free_text (text_message admin ''Morning Song'') \<and>
   handleUpdate env_store_fails (sessions admin state_edit_enter_value)
     (Some (text_message admin ''Morning Song''))
     = Inr ((sessions admin state_edit_enter_value)(admin := None),
            [UpdateOne [(''title'', BString ''Night Song'')]
                       [(''$set'', BDoc [(''title'', BString ''Morning Song'')])],
             Send admin ''Failed to update the song.'' NoMarkup] @
            sendMainMenu admin)"
proof -
  have ft: "free_text (text_message admin ''Morning Song'')"
    by (simp add: free_text_text_message menu_labels_def label_defs)
  show ?thesis
    using edit_value_deletes_session_either_way [of "text_message admin ''Morning Song''"
        "sessions admin state_edit_enter_value" state_edit_enter_value env_store_fails]
      ft isAdmin_admin
    by (simp add: text_message_def state_edit_enter_value_def UserState0_def
        env_store_fails_def env_ok_def)
qed

text \<open>
  Claim C10.  An administrator's session is at \<open>edit_select_field\<close> and the stage
  receives text that is none of the four field labels and not \<open>Cancel\<close>.  No case of
  the inner switch returns: the message is handled by the alphabet selection, and the
  session table is returned as it was, the session still at \<open>edit_select_field\<close>.
\<close>

theorem edit_select_field_falls_through:
  assumes "isAdmin (FromID m)" and "free_text m"
    and "st (FromID m) = Some state" and "Stage state = ''edit_select_field''"
    and "Text m \<notin> set [''Edit Title'', ''Edit Lyrics'', ''Edit Category'', ''Edit Image'',
                        ''Cancel'']"
  shows "handleUpdate env st (Some m) = unchanged st (handleAlphabetSelection env m)"
  using assms by (simp add: handleUpdate_free_text stageSwitch_def)

theorem edit_select_field_falls_through_witness:
  "isAdmin admin \<and>
   free_text (text_message admin ''N'') \<and>
   handleUpdate env_ok (sessions admin state_edit_select_field)
     (Some (text_message admin ''N''))
     = unchanged (sessions admin state_edit_select_field)
         (handleAlphabetSelection env_ok (text_message admin ''N''))"
proof -
  have ft: "free_text (text_message admin ''N'')"
    by (simp add: free_text_text_message menu_labels_def label_defs)
  show ?thesis
    using edit_select_field_falls_through [of "text_message admin ''N''"
        "sessions admin state_edit_select_field" state_edit_select_field env_ok]
      ft isAdmin_admin
    by (simp add: text_message_def state_edit_select_field_def UserState0_def)
qed

subsection \<open>The order of dispatch\<close>

lemma calls_unchanged: "calls (unchanged st r) = r"
  by (simp add: calls_def unchanged_def split: sum.splits)

lemma menu_label_cases:
  assumes "l \<in> set menu_labels"
  obtains "l = label_SearchLyrics" | "l = label_ViewAllSongs" | "l = label_UploadImage"
    | "l = label_AddSong" | "l = label_Help" | "l = label_ChoirSongs"
    | "l = label_NonChoirSongs" | "l = label_EditSong" | "l = label_RandomSong"
  using assms unfolding menu_labels_def by auto

lemma button_calls:
  assumes "\<not> IsCommand m" and "Text m \<in> set menu_labels"
  shows "calls (handleUpdate env st (Some m)) = calls (handleUpdate env Map.empty (Some m))"
  using assms(2)
  by (cases rule: menu_label_cases)
     (simp_all add: handleUpdate_def assms(1) label_defs calls_def unchanged_def
       split: sum.splits)

lemma button_sessions:
  assumes "\<not> IsCommand m" and "Text m \<in> set menu_labels"
    and "handleUpdate env st (Some m) = Inr (st', effects)"
  shows "st' = st \<or> st' = st(FromID m \<mapsto> fresh_add) \<or> st' = st(FromID m \<mapsto> fresh_edit)"
  using assms(2)
proof (cases rule: menu_label_cases)
  case 1
  with assms(1,3) show ?thesis
    by (auto simp add: handleUpdate_def label_defs)
next
  case 2
  with assms(1,3) show ?thesis
    by (auto simp add: handleUpdate_def label_defs)
next
  case 3
  with assms(1,3) show ?thesis
    by (auto simp add: handleUpdate_def label_defs split: if_splits)
next
  case 4
  with assms(1,3) show ?thesis
    by (auto simp add: handleUpdate_def label_defs fresh_add_def split: if_splits)
next
  case 5
  with assms(1,3) show ?thesis
    by (auto simp add: handleUpdate_def label_defs)
next
  case 6
  with assms(1,3) show ?thesis
    by (auto simp add: handleUpdate_def label_defs unchanged_def split: sum.splits)
next
  case 7
  with assms(1,3) show ?thesis
    by (auto simp add: handleUpdate_def label_defs unchanged_def split: sum.splits)
next
  case 8
  with assms(1,3) show ?thesis
    by (auto simp add: handleUpdate_def label_defs fresh_edit_def split: if_splits)
next
  case 9
  with assms(1,3) show ?thesis
    by (auto simp add: handleUpdate_def label_defs)
qed

lemma Cancel_not_menu_label: "''Cancel'' \<notin> set menu_labels"
  by (simp add: menu_labels_def label_defs)


lemma Cancel_at_awaiting_title:
  assumes "\<not> IsCommand m" and "Text m = ''Cancel''" and "isAdmin (FromID m)"
    and "st (FromID m) = Some state" and "Stage state = ''awaiting_title''"
  shows "handleUpdate env st (Some m) =
        Inr (st(FromID m \<mapsto> UserState0\<lparr>Stage := ''awaiting_category'', Title := ''Cancel''\<rparr>),
             [Send (ChatID m) ''Please select the song category:''
                (ReplyKeyboard [[''Choir'', ''Non-Choir'']])])"
proof -
  have "free_text m"
    using assms(1,2) by (simp add: free_text_def Cancel_not_menu_label)
  then show ?thesis
    by (simp add: handleUpdate_free_text stageSwitch_def assms(2-5))
qed

lemma Cancel_at_edit_select_field:
  assumes "\<not> IsCommand m" and "Text m = ''Cancel''" and "isAdmin (FromID m)"
    and "st (FromID m) = Some state" and "Stage state = ''edit_select_field''"
  shows "handleUpdate env st (Some m) =
        Inr (st(FromID m := None),
             Send (ChatID m) ''Edit cancelled.'' RemoveKeyboard # sendMainMenu (ChatID m))"
proof -
  have "free_text m"
    using assms(1,2) by (simp add: free_text_def Cancel_not_menu_label)
  then show ?thesis
    by (simp add: handleUpdate_free_text stageSwitch_def assms(2-5))
qed

lemma sent_texts_append: "sent_texts (xs @ ys) = sent_texts xs @ sent_texts ys"
  by (induction xs rule: sent_texts.induct) simp_all

lemma handleAlphabetSelection_no_cancel:
  assumes "handleAlphabetSelection env m = Inr effects"
  shows "''Edit cancelled.'' \<notin> set (sent_texts effects)"
  using assms
  by (auto simp add: handleAlphabetSelection_def Let_def
      split: if_splits option.splits sum.splits)

lemma resolve_imageURL_no_cancel:
  assumes "resolve_imageURL env m = Inr (issued, url, deferred)"
  shows "''Edit cancelled.'' \<notin> set (sent_texts issued) \<and> sent_texts deferred = []"
  using assms
  by (auto simp add: resolve_imageURL_def split: if_splits option.splits sum.splits)

lemma sent_texts_sendMainMenu:
  "sent_texts (sendMainMenu c) =
     [''Welcome to Our Marantha Choir Lyrics Bot! Please select an option:'']"
  by (simp add: sendMainMenu_def)


lemma stageSwitch_no_cancel:
  assumes ret: "stageSwitch env st state m = Inr (Some (st', effects))"
    and other: "Stage state \<noteq> ''edit_select_field''"
    and held: "st (FromID m) = Some state"
  shows "''Edit cancelled.'' \<notin> set (sent_texts effects) \<and>
         (st' (FromID m) \<noteq> None \<or> writes effects \<noteq> [])"
proof -
  consider (title) "Stage state = ''awaiting_title''"
    | (category) "Stage state = ''awaiting_category''"
    | (lyrics) "Stage state = ''awaiting_lyrics''"
    | (image) "Stage state = ''awaiting_image''"
    | (song) "Stage state = ''edit_select_song''"
    | (val) "Stage state = ''edit_enter_value''"
    | (none) "Stage state \<notin> set [''awaiting_title'', ''awaiting_category'',
        ''awaiting_lyrics'', ''awaiting_image'', ''edit_select_song'', ''edit_select_field'',
        ''edit_enter_value'']"
    using other by auto
  then show ?thesis
  proof cases
    case title
    with ret show ?thesis
      by (auto simp add: stageSwitch_def)
  next
    case category
    with ret held show ?thesis
      by (auto simp add: stageSwitch_def split: if_splits)
  next
    case lyrics
    with ret show ?thesis
      by (auto simp add: stageSwitch_def)
  next
    case image
    show ?thesis
    proof (cases "resolve_imageURL env m")
      case (Inl e)
      with ret image show ?thesis
        by (simp add: stageSwitch_def)
    next
      case (Inr r)
      obtain issued url deferred where r: "r = (issued, url, deferred)"
        by (cases r) auto
      note nc = resolve_imageURL_no_cancel [OF Inr [unfolded r]]
      show ?thesis
      proof (cases url)
        case None
        with ret image Inr r held nc show ?thesis
          by (auto simp add: stageSwitch_def sent_texts_append)
      next
        case (Some imageURL)
        with ret image Inr r nc show ?thesis
          by (auto simp add: stageSwitch_def sent_texts_append writes_append Let_def
              split: if_splits)
      qed
    qed
  next
    case song
    with ret held show ?thesis
      by (auto simp add: stageSwitch_def split: option.splits)
  next
    case val
    with ret show ?thesis
      by (auto simp add: stageSwitch_def Let_def sent_texts_append sent_texts_sendMainMenu
          split: if_splits)
  next
    case none
    with ret show ?thesis
      by (simp add: stageSwitch_def)
  qed
qed

lemma free_text_no_cancel:
  assumes ft: "free_text m"
    and held: "st (FromID m) = Some state"
    and ret: "handleUpdate env st (Some m) = Inr (st', effects)"
    and other: "\<not> (isAdmin (FromID m) \<and> Stage state = ''edit_select_field'')"
  shows "''Edit cancelled.'' \<notin> set (sent_texts effects) \<and>
         (st' (FromID m) \<noteq> None \<or> writes effects \<noteq> [])"
proof (cases "isAdmin (FromID m)")
  case False
  with ft ret have "unchanged st (handleAlphabetSelection env m) = Inr (st', effects)"
    by (simp add: handleUpdate_free_text)
  then have "handleAlphabetSelection env m = Inr effects" and "st' = st"
    by (auto simp add: unchanged_def split: sum.splits)
  with held handleAlphabetSelection_no_cancel [of env m effects] show ?thesis
    by simp
next
  case True
  with other have o: "Stage state \<noteq> ''edit_select_field''" by simp
  show ?thesis
  proof (cases "stageSwitch env st state m")
    case (Inl e)
    with ft ret True held show ?thesis
      by (simp add: handleUpdate_free_text)
  next
    case (Inr r)
    show ?thesis
    proof (cases r)
      case None
      with Inr ft ret True held
      have "unchanged st (handleAlphabetSelection env m) = Inr (st', effects)"
        by (simp add: handleUpdate_free_text)
      then have "handleAlphabetSelection env m = Inr effects" and "st' = st"
        by (auto simp add: unchanged_def split: sum.splits)
      with held handleAlphabetSelection_no_cancel [of env m effects] show ?thesis
        by simp
    next
      case (Some returned)
      with Inr ft ret True held have "returned = (st', effects)"
        by (simp add: handleUpdate_free_text)
      with Inr Some have "stageSwitch env st state m = Inr (Some (st', effects))"
        by simp
      from stageSwitch_no_cancel [OF this o held] show ?thesis .
    qed
  qed
qed

lemma idle_no_cancel:
  assumes ft: "free_text m"
    and idle: "st (FromID m) = None"
    and ret: "handleUpdate env st (Some m) = Inr (st', effects)"
  shows "''Edit cancelled.'' \<notin> set (sent_texts effects) \<and> st' = st"
proof -
  from idle_free_text [of m st env] ft idle ret
  have "unchanged st (handleAlphabetSelection env m) = Inr (st', effects)"
    by simp
  then have "handleAlphabetSelection env m = Inr effects" and "st' = st"
    by (auto simp add: unchanged_def split: sum.splits)
  with handleAlphabetSelection_no_cancel [of env m effects] show ?thesis
    by simp
qed

lemma Cancel_is_free_text:
  "\<not> IsCommand m \<Longrightarrow> Text m = ''Cancel'' \<Longrightarrow> free_text m"
  by (simp add: free_text_def Cancel_not_menu_label)

text \<open>
  The word \<open>Cancel\<close> is no label of the button switch.  An administrator whose session
  is at \<open>awaiting_title\<close> types it: the stage switch runs and stores it as the title of
  the song.
\<close>

theorem Cancel_is_stored_as_title:
  "handleUpdate env_ok (sessions admin state_awaiting_title)
     (Some (text_message admin ''Cancel''))
   = Inr (sessions admin (UserState0\<lparr>Stage := ''awaiting_category'', Title := ''Cancel''\<rparr>),
          [Send admin ''Please select the song category:''
             (ReplyKeyboard [[''Choir'', ''Non-Choir'']])])"
proof -
  have ft: "free_text (text_message admin ''Cancel'')"
    by (simp add: free_text_text_message Cancel_not_menu_label)
  have "FromID (text_message admin ''Cancel'') = admin"
    "Text (text_message admin ''Cancel'') = ''Cancel''"
    "ChatID (text_message admin ''Cancel'') = admin"
    by (simp_all add: text_message_def)
  then show ?thesis
    by (simp add: handleUpdate_free_text [OF ft] isAdmin_admin stageSwitch_def
        state_awaiting_title_def UserState0_def sessions_def)
qed

text \<open>
  Claim C2, as amended.  For every message the handler decides in this order.  A command
  is handled by the command switch alone.  Otherwise a text equal to one of the nine
  labels of the button switch is handled by the button branch before any stage: the
  calls issued are those issued with an empty session table, and the table is left as
  it is or the sender's session is replaced by a fresh one of the Add or the Edit flow.
  Any other text is free text: for an administrator with a session the stage switch
  runs, and where it does not return, and for everyone else, the alphabet selection
  runs.  \<open>Cancel\<close> is none of the nine labels, so it is free text: at \<open>awaiting_title\<close>
  it is stored as the title.  It is treated as a cancellation (the session deleted with
  the reply \<open>Edit cancelled.\<close> and without a write to the catalog) when the sender is
  an administrator whose session is at \<open>edit_select_field\<close>, and only then: in every
  other situation a handler that returns does not send that reply, a session that the
  sender holds is kept or is ended together with a write to the catalog, and without a
  session the table stays as it is.
\<close>

theorem dispatch_order:
  "(IsCommand m \<longrightarrow> handleUpdate env st (Some m) = commandSwitch env st m) \<and>
   (\<not> IsCommand m \<and> Text m \<in> set menu_labels \<longrightarrow>
      calls (handleUpdate env st (Some m)) = calls (handleUpdate env Map.empty (Some m)) \<and>
      (\<forall>st' effects. handleUpdate env st (Some m) = Inr (st', effects) \<longrightarrow>
         st' = st \<or> st' = st(FromID m \<mapsto> fresh_add) \<or> st' = st(FromID m \<mapsto> fresh_edit))) \<and>
   (free_text m \<longrightarrow>
      handleUpdate env st (Some m) =
        (if isAdmin (FromID m) then
           (case st (FromID m) of
              Some state \<Rightarrow>
                (case stageSwitch env st state m of
                   Inl e \<Rightarrow> Inl e
                 | Inr (Some returned) \<Rightarrow> Inr returned
                 | Inr None \<Rightarrow> unchanged st (handleAlphabetSelection env m))
            | None \<Rightarrow> unchanged st (handleAlphabetSelection env m))
         else unchanged st (handleAlphabetSelection env m))) \<and>
   ''Cancel'' \<notin> set menu_labels \<and>
   (\<not> IsCommand m \<and> Text m = ''Cancel'' \<and> isAdmin (FromID m) \<and>
    st (FromID m) = Some state \<and> Stage state = ''awaiting_title'' \<longrightarrow>
      handleUpdate env st (Some m) =
        Inr (st(FromID m \<mapsto> UserState0\<lparr>Stage := ''awaiting_category'', Title := ''Cancel''\<rparr>),
             [Send (ChatID m) ''Please select the song category:''
                (ReplyKeyboard [[''Choir'', ''Non-Choir'']])])) \<and>
   (\<not> IsCommand m \<and> Text m = ''Cancel'' \<and> isAdmin (FromID m) \<and>
    st (FromID m) = Some state \<and> Stage state = ''edit_select_field'' \<longrightarrow>
      handleUpdate env st (Some m) =
        Inr (st(FromID m := None),
             Send (ChatID m) ''Edit cancelled.'' RemoveKeyboard # sendMainMenu (ChatID m))) \<and>
   (\<not> IsCommand m \<and> Text m = ''Cancel'' \<and> st (FromID m) = Some state \<and>
    \<not> (isAdmin (FromID m) \<and> Stage state = ''edit_select_field'') \<longrightarrow>
      (\<forall>st' effects. handleUpdate env st (Some m) = Inr (st', effects) \<longrightarrow>
         ''Edit cancelled.'' \<notin> set (sent_texts effects) \<and>
         (st' (FromID m) \<noteq> None \<or> writes effects \<noteq> []))) \<and>
   (\<not> IsCommand m \<and> Text m = ''Cancel'' \<and> st (FromID m) = None \<longrightarrow>
      (\<forall>st' effects. handleUpdate env st (Some m) = Inr (st', effects) \<longrightarrow>
         ''Edit cancelled.'' \<notin> set (sent_texts effects) \<and> st' = st))"
proof -
  have c1: "IsCommand m \<longrightarrow> handleUpdate env st (Some m) = commandSwitch env st m"
    by (simp add: handleUpdate_def)
  have c2: "\<not> IsCommand m \<and> Text m \<in> set menu_labels \<longrightarrow>
      calls (handleUpdate env st (Some m)) = calls (handleUpdate env Map.empty (Some m)) \<and>
      (\<forall>st' effects. handleUpdate env st (Some m) = Inr (st', effects) \<longrightarrow>
         st' = st \<or> st' = st(FromID m \<mapsto> fresh_add) \<or> st' = st(FromID m \<mapsto> fresh_edit))"
  proof (intro impI conjI allI)
    assume a: "\<not> IsCommand m \<and> Text m \<in> set menu_labels"
    from a have n: "\<not> IsCommand m" by (rule conjunct1)
    from a have l: "Text m \<in> set menu_labels" by (rule conjunct2)
    show "calls (handleUpdate env st (Some m)) = calls (handleUpdate env Map.empty (Some m))"
      using n l by (rule button_calls)
    fix st' effects
    assume "handleUpdate env st (Some m) = Inr (st', effects)"
    with n l show "st' = st \<or> st' = st(FromID m \<mapsto> fresh_add) \<or>
        st' = st(FromID m \<mapsto> fresh_edit)"
      by (rule button_sessions)
  qed
  have c3: "free_text m \<longrightarrow>
      handleUpdate env st (Some m) =
        (if isAdmin (FromID m) then
           (case st (FromID m) of
              Some state \<Rightarrow>
                (case stageSwitch env st state m of
                   Inl e \<Rightarrow> Inl e
                 | Inr (Some returned) \<Rightarrow> Inr returned
                 | Inr None \<Rightarrow> unchanged st (handleAlphabetSelection env m))
            | None \<Rightarrow> unchanged st (handleAlphabetSelection env m))
         else unchanged st (handleAlphabetSelection env m))"
    using handleUpdate_free_text [of m env st] by (rule impI)
  have c5: "\<not> IsCommand m \<and> Text m = ''Cancel'' \<and> isAdmin (FromID m) \<and>
    st (FromID m) = Some state \<and> Stage state = ''awaiting_title'' \<longrightarrow>
      handleUpdate env st (Some m) =
        Inr (st(FromID m \<mapsto> UserState0\<lparr>Stage := ''awaiting_category'', Title := ''Cancel''\<rparr>),
             [Send (ChatID m) ''Please select the song category:''
                (ReplyKeyboard [[''Choir'', ''Non-Choir'']])])"
    using Cancel_at_awaiting_title [of m st state env] by (intro impI) (elim conjE)
  have c6: "\<not> IsCommand m \<and> Text m = ''Cancel'' \<and> isAdmin (FromID m) \<and>
    st (FromID m) = Some state \<and> Stage state = ''edit_select_field'' \<longrightarrow>
      handleUpdate env st (Some m) =
        Inr (st(FromID m := None),
             Send (ChatID m) ''Edit cancelled.'' RemoveKeyboard # sendMainMenu (ChatID m))"
    using Cancel_at_edit_select_field [of m st state env] by (intro impI) (elim conjE)
  have c7: "\<not> IsCommand m \<and> Text m = ''Cancel'' \<and> st (FromID m) = Some state \<and>
    \<not> (isAdmin (FromID m) \<and> Stage state = ''edit_select_field'') \<longrightarrow>
      (\<forall>st' effects. handleUpdate env st (Some m) = Inr (st', effects) \<longrightarrow>
         ''Edit cancelled.'' \<notin> set (sent_texts effects) \<and>
         (st' (FromID m) \<noteq> None \<or> writes effects \<noteq> []))"
  proof (intro impI allI)
    fix st' effects
    assume a: "\<not> IsCommand m \<and> Text m = ''Cancel'' \<and> st (FromID m) = Some state \<and>
      \<not> (isAdmin (FromID m) \<and> Stage state = ''edit_select_field'')"
    assume r: "handleUpdate env st (Some m) = Inr (st', effects)"
    from a have ft: "free_text m"
      by (simp add: Cancel_is_free_text)
    from a have held: "st (FromID m) = Some state"
      and other: "\<not> (isAdmin (FromID m) \<and> Stage state = ''edit_select_field'')"
      by blast+
    from free_text_no_cancel [of m st state env st' effects] ft held r other
    show "''Edit cancelled.'' \<notin> set (sent_texts effects) \<and>
         (st' (FromID m) \<noteq> None \<or> writes effects \<noteq> [])"
      by blast
  qed
  have c8: "\<not> IsCommand m \<and> Text m = ''Cancel'' \<and> st (FromID m) = None \<longrightarrow>
      (\<forall>st' effects. handleUpdate env st (Some m) = Inr (st', effects) \<longrightarrow>
         ''Edit cancelled.'' \<notin> set (sent_texts effects) \<and> st' = st)"
  proof (intro impI allI)
    fix st' effects
    assume a: "\<not> IsCommand m \<and> Text m = ''Cancel'' \<and> st (FromID m) = None"
    assume r: "handleUpdate env st (Some m) = Inr (st', effects)"
    from a have ft: "free_text m"
      by (simp add: Cancel_is_free_text)
    from a have idle: "st (FromID m) = None"
      by blast
    from idle_no_cancel [of m st env st' effects] ft idle r
    show "''Edit cancelled.'' \<notin> set (sent_texts effects) \<and> st' = st"
      by blast
  qed
  from c1 c2 c3 Cancel_not_menu_label c5 c6 c7 c8 show ?thesis
    by (intro conjI)
qed

theorem dispatch_order_witness:
  "IsCommand (command_message admin ''cancel'') \<and>
   handleUpdate env_ok (sessions admin state_awaiting_title)
     (Some (command_message admin ''cancel''))
     = commandSwitch env_ok (sessions admin state_awaiting_title)
         (command_message admin ''cancel'') \<and>
   \<not> IsCommand (text_message admin label_Help) \<and>
   Text (text_message admin label_Help) \<in> set menu_labels \<and>
   calls (handleUpdate env_ok (sessions admin state_awaiting_title)
            (Some (text_message admin label_Help)))
     = calls (handleUpdate env_ok Map.empty (Some (text_message admin label_Help))) \<and>
   isAdmin admin \<and>
   handleUpdate env_ok (sessions admin state_edit_select_field)
     (Some (text_message admin ''Cancel''))
     = Inr ((sessions admin state_edit_select_field)(admin := None),
            Send admin ''Edit cancelled.'' RemoveKeyboard # sendMainMenu admin) \<and>
   handleUpdate env_ok (sessions admin state_awaiting_category)
     (Some (text_message admin ''Cancel''))
     = Inr (sessions admin state_awaiting_category,
            [Send admin ''Please select a valid category (Choir/Non-Choir):'' NoMarkup]) \<and>
   ''Edit cancelled.'' \<notin>
     set (sent_texts [Send admin ''Please select a valid category (Choir/Non-Choir):''
                        NoMarkup]) \<and>
   sessions admin state_awaiting_category admin \<noteq> None"
proof -
  let ?c = "command_message admin ''cancel''"
  let ?h = "text_message admin label_Help"
  let ?x = "text_message admin ''Cancel''"
  let ?reprompt = "[Send admin ''Please select a valid category (Choir/Non-Choir):'' NoMarkup]"
  have c: "IsCommand ?c"
    by (simp add: command_message_def)
  have h: "\<not> IsCommand ?h \<and> Text ?h \<in> set menu_labels"
    by (simp add: text_message_def menu_labels_def)
  have x: "\<not> IsCommand ?x \<and> Text ?x = ''Cancel'' \<and> isAdmin (FromID ?x) \<and>
      sessions admin state_edit_select_field (FromID ?x) = Some state_edit_select_field \<and>
      Stage state_edit_select_field = ''edit_select_field''"
    by (simp add: text_message_def isAdmin_admin state_edit_select_field_def UserState0_def)
  have f: "FromID ?x = admin" "ChatID ?x = admin" "Text ?x = ''Cancel''"
    by (simp_all add: text_message_def)
  have ft: "free_text ?x"
    by (simp add: free_text_text_message Cancel_not_menu_label)
  have y: "\<not> IsCommand ?x \<and> Text ?x = ''Cancel'' \<and>
      sessions admin state_awaiting_category (FromID ?x) = Some state_awaiting_category \<and>
      \<not> (isAdmin (FromID ?x) \<and> Stage state_awaiting_category = ''edit_select_field'')"
    by (simp add: text_message_def state_awaiting_category_def UserState0_def)
  have r: "handleUpdate env_ok (sessions admin state_awaiting_category) (Some ?x)
      = Inr (sessions admin state_awaiting_category, ?reprompt)"
    by (simp add: handleUpdate_free_text [OF ft] f isAdmin_admin stageSwitch_def
        state_awaiting_category_def UserState0_def)
  note d1 = dispatch_order [of ?c env_ok "sessions admin state_awaiting_title",
      THEN conjunct1, rule_format, OF c]
  note d2 = dispatch_order [of ?h env_ok "sessions admin state_awaiting_title",
      THEN conjunct2, THEN conjunct1, rule_format, OF h, THEN conjunct1]
  note d6 = dispatch_order [of ?x env_ok "sessions admin state_edit_select_field"
      state_edit_select_field,
      THEN conjunct2, THEN conjunct2, THEN conjunct2, THEN conjunct2, THEN conjunct2,
      THEN conjunct1, rule_format, OF x]
  note d7 = dispatch_order [of ?x env_ok "sessions admin state_awaiting_category"
      state_awaiting_category,
      THEN conjunct2, THEN conjunct2, THEN conjunct2, THEN conjunct2, THEN conjunct2,
      THEN conjunct2, THEN conjunct1, rule_format, OF y r]
  from d7 have d7a: "''Edit cancelled.'' \<notin> set (sent_texts ?reprompt)"
    by (rule conjunct1)
  have keep: "sessions admin state_awaiting_category admin \<noteq> None"
    by simp
  from c d1 h d2 isAdmin_admin d6 [unfolded f] r d7a keep show ?thesis
    by (intro conjI) (simp_all only: simp_thms)
qed

end
